theory Spec2Isabelle
  imports Main
begin

section \<open>Data model\<close>

subsection \<open>Errors and panics\<close>

text \<open>
  A Go \<^verbatim>\<open>error\<close> is an interface value. The errors of this package are
  \<^verbatim>\<open>*echo.HTTPError\<close> values (fields \<^verbatim>\<open>Code\<close>, \<^verbatim>\<open>Message\<close>, \<^verbatim>\<open>Internal\<close>);
  every other error (what the identity-provider client, a hook or the next handler
  returns) is \<open>ForeignError\<close>. The \<^verbatim>\<open>nil\<close> error is \<open>None\<close> of \<open>error option\<close>.
  \<^verbatim>\<open>Message\<close> is an \<^verbatim>\<open>interface{}\<close>: it is either a string literal or the string
  \<^verbatim>\<open>e.Error()\<close> of another error, whose layout belongs to echo and is kept symbolic
  (\<open>ErrorText e\<close>).
\<close>

datatype error =
    HTTPError (Code: nat) (Message: message) (Internal: "error option")
  | ForeignError string
and message =
    Text string
  | ErrorText error

text \<open>\<^verbatim>\<open>echo.NewHTTPError(code, msg)\<close>: no internal error.\<close>

definition NewHTTPError :: "nat \<Rightarrow> string \<Rightarrow> error" where
  "NewHTTPError code msg = HTTPError code (Text msg) None"

definition StatusBadRequest :: nat where "StatusBadRequest = 400"
definition StatusUnauthorized :: nat where "StatusUnauthorized = 401"
definition StatusForbidden :: nat where "StatusForbidden = 403"
definition StatusInternalServerError :: nat where "StatusInternalServerError = 500"

definition ErrTokenMissing :: error where
  "ErrTokenMissing = NewHTTPError StatusBadRequest ''missing or malformed token''"

definition ErrClaimsMissing :: error where
  "ErrClaimsMissing = NewHTTPError StatusInternalServerError ''no claims in context found''"

definition ErrRealmAccessMissing :: error where
  "ErrRealmAccessMissing =
     NewHTTPError StatusInternalServerError ''no realm_access in claims found''"

definition ErrRolesMissing :: error where
  "ErrRolesMissing =
     NewHTTPError StatusInternalServerError ''no roles in realm_access claim found''"

definition ErrRolesInvalid :: error where
  "ErrRolesInvalid = NewHTTPError StatusForbidden ''invalid roles''"

text \<open>
  The run-time panics the two files can raise: a single-value type assertion on a
  \<^verbatim>\<open>nil\<close> interface or on a value of another dynamic type, a field read through a
  \<^verbatim>\<open>nil\<close> pointer, an index past the end of a slice, and the two explicit
  \<^verbatim>\<open>panic(...)\<close> calls of the constructors.
\<close>

datatype panic =
    InterfaceIsNil
  | InterfaceWrongType
  | NilPointerDereference
  | IndexOutOfRange
  | ConfigPanic string

subsection \<open>Claims, tokens and the request context\<close>

text \<open>
  A value of type \<^verbatim>\<open>interface{}\<close> as JSON decoding produces it: the role gate only
  tells strings, lists (\<^verbatim>\<open>[]interface{}\<close>) and mappings
  (\<^verbatim>\<open>map[string]interface{}\<close>) from everything else. A mapping is an association
  list read with \<open>map_of\<close>.
\<close>

datatype any =
    AString string
  | ANumber int
  | ABool bool
  | ANil
  | AList "any list"
  | AMap "(string \<times> any) list"

text \<open>
  The dynamic type of a \<^verbatim>\<open>jwt.Claims\<close> value: \<^verbatim>\<open>jwt.MapClaims\<close>, a pointer to one
  (what \<^verbatim>\<open>DecodeAccessToken\<close> hands back), or a caller's own claims type.
\<close>

datatype claims =
    MapClaims "(string \<times> any) list"
  | MapClaimsPtr "(string \<times> any) list option"
  | CustomClaims string

text \<open>\<^verbatim>\<open>jwt.Token\<close>, with the two fields the gates read.\<close>

record Token =
  Token_Claims :: claims
  Token_Valid :: bool

text \<open>
  What a context slot can hold: a \<^verbatim>\<open>*jwt.Token\<close> (\<open>None\<close> is the \<^verbatim>\<open>nil\<close> pointer),
  a \<^verbatim>\<open>[]string\<close>, or any other value.
\<close>

datatype ctxval =
    TokenPtr "Token option"
  | Strings "string list"
  | OtherVal any

text \<open>
  \<^verbatim>\<open>echo.Context\<close>: what the request answers to the four lookups, and the key-value
  store behind \<^verbatim>\<open>c.Get\<close> and \<^verbatim>\<open>c.Set\<close>. A missing header, query parameter or path
  parameter reads as the empty string; a missing cookie is an error of \<^verbatim>\<open>c.Cookie\<close>,
  here \<open>None\<close>; a missing key of the store reads as the \<^verbatim>\<open>nil\<close> interface, here \<open>None\<close>.
\<close>

record Context =
  Header :: "string \<Rightarrow> string"
  QueryParam :: "string \<Rightarrow> string"
  Param :: "string \<Rightarrow> string"
  Cookie :: "string \<rightharpoonup> string"
  Store :: "string \<rightharpoonup> ctxval"

definition ctx_Get :: "Context \<Rightarrow> string \<Rightarrow> ctxval option" where
  "ctx_Get c key = Store c key"

definition ctx_Set :: "Context \<Rightarrow> string \<Rightarrow> ctxval \<Rightarrow> Context" where
  "ctx_Set c key val = c\<lparr>Store := (Store c)(key \<mapsto> val)\<rparr>"

section \<open>Token extractors (keycloak.go)\<close>

text \<open>
  \<^verbatim>\<open>strings.ToLower\<close>. For a string of ASCII bytes only (every byte below 0x80) Go
  maps the bytes \<^verbatim>\<open>A..Z\<close> to \<^verbatim>\<open>a..z\<close> and leaves the rest. For any other string it
  returns \<^verbatim>\<open>strings.Map(unicode.ToLower, s)\<close>, which decodes UTF-8 runes, lowers each
  with the Unicode tables and replaces invalid bytes: that function belongs to the Go
  library and is the parameter \<open>unicodeLower\<close>, here and in every definition that
  reaches the header extractor.
\<close>

definition lower_byte :: "char \<Rightarrow> char" where
  "lower_byte c =
     (let n = (of_char c :: nat) in if 65 \<le> n \<and> n \<le> 90 then char_of (n + 32) else c)"

definition isASCII :: "string \<Rightarrow> bool" where
  "isASCII s = list_all (\<lambda>c. (of_char c :: nat) < 128) s"

definition ToLower :: "(string \<Rightarrow> string) \<Rightarrow> string \<Rightarrow> string" where
  "ToLower unicodeLower s = (if isASCII s then map lower_byte s else unicodeLower s)"

type_synonym tokenExtractor = "Context \<Rightarrow> error + string"

text \<open>
  \<^verbatim>\<open>auth[:l]\<close> is \<open>take l auth\<close> and \<^verbatim>\<open>auth[l+1:]\<close> is \<open>drop (l + 1) auth\<close>: both are
  read only after \<^verbatim>\<open>len(auth) > l+1\<close> held, so neither slice is out of range.
\<close>

definition tokenFromHeader :: "(string \<Rightarrow> string) \<Rightarrow> string \<Rightarrow> string \<Rightarrow> tokenExtractor" where
  "tokenFromHeader unicodeLower header authScheme c =
     (let auth = Header c header;
          l = length authScheme
      in if length auth > l + 1
            \<and> ToLower unicodeLower (take l auth) = ToLower unicodeLower authScheme
         then Inr (drop (l + 1) auth)
         else Inl ErrTokenMissing)"

definition tokenFromQuery :: "string \<Rightarrow> tokenExtractor" where
  "tokenFromQuery param c =
     (let token = QueryParam c param
      in if token = [] then Inl ErrTokenMissing else Inr token)"

definition tokenFromParam :: "string \<Rightarrow> tokenExtractor" where
  "tokenFromParam param c =
     (let token = Param c param
      in if token = [] then Inl ErrTokenMissing else Inr token)"

definition tokenFromCookie :: "string \<Rightarrow> tokenExtractor" where
  "tokenFromCookie name c =
     (case Cookie c name of
        None \<Rightarrow> Inl ErrTokenMissing
      | Some v \<Rightarrow> Inr v)"

section \<open>Hooks and the identity-provider client\<close>

text \<open>
  The five optional function fields both configuration structs share (\<open>None\<close> is a
  \<^verbatim>\<open>nil\<close> function). A hook that receives the \<^verbatim>\<open>echo.Context\<close> may write to it, so
  it returns the context it leaves; the skipper is a predicate on the context. The
  error handlers are called with the gate's \<^verbatim>\<open>err\<close>, which can be \<^verbatim>\<open>nil\<close>.
  An \<^verbatim>\<open>echo.HandlerFunc\<close> returns its \<^verbatim>\<open>error\<close> and the context as it leaves it,
  or panics; an \<^verbatim>\<open>echo.MiddlewareFunc\<close> maps a handler to a handler.
\<close>

type_synonym HandlerFunc = "Context \<Rightarrow> panic + (error option \<times> Context)"

type_synonym MiddlewareFunc = "HandlerFunc \<Rightarrow> HandlerFunc"

record Hooks =
  Skipper :: "(Context \<Rightarrow> bool) option"
  BeforeFunc :: "(Context \<Rightarrow> Context) option"
  SuccessHandler :: "(Context \<Rightarrow> Context) option"
  ErrorHandler :: "(error option \<Rightarrow> error option) option"
  ErrorHandlerWithContext :: "(error option \<Rightarrow> Context \<Rightarrow> error option \<times> Context) option"

text \<open>\<^verbatim>\<open>middleware.DefaultSkipper\<close> returns false.\<close>

definition DefaultSkipper :: "Context \<Rightarrow> bool" where
  "DefaultSkipper c = False"

text \<open>
  The two methods of the \<^verbatim>\<open>gocloak.GoCloak\<close> interface the gate calls, as functions of
  the raw token and the realm. A returned \<^verbatim>\<open>*jwt.Token\<close> or \<^verbatim>\<open>*jwt.MapClaims\<close> can be
  \<^verbatim>\<open>nil\<close> (\<open>None\<close>). The custom-claims method is handed a claims object and decodes
  into it in place (a \<^verbatim>\<open>jwt.MapClaims\<close> map keeps the entries it had and gets the
  token's): besides the token and the error it returns what the object holds after the
  call. The claims of the token it returns are that object, read when the call returns.
\<close>

record GoCloak =
  DecodeAccessToken ::
    "string \<Rightarrow> string \<Rightarrow> Token option \<times> (string \<times> any) list option \<times> error option"
  DecodeAccessTokenCustomClaims ::
    "string \<Rightarrow> string \<Rightarrow> claims \<Rightarrow> Token option \<times> error option \<times> claims"

section \<open>The authentication gate (keycloak.go)\<close>

text \<open>
  \<^verbatim>\<open>config.Claims\<close> is an interface value that refers to a claims object. The default
  configuration refers to one \<^verbatim>\<open>jwt.MapClaims\<close> map, made once when the package is
  initialised, and every gate that takes the default refers to that same map
  (\<open>DefaultClaims\<close>); what this shared map holds is part of the state of the package,
  the argument \<open>shared\<close> of the definitions below, \<^verbatim>\<open>jwt.MapClaims{}\<close> at the start. Any
  other claims object is the caller's own (\<open>OwnClaims\<close>, with what it holds now).
\<close>

datatype claims_ref =
    DefaultClaims
  | OwnClaims claims

definition initial_shared :: claims where
  "initial_shared = MapClaims []"

record KeycloakConfig = Hooks +
  KeycloakURL :: string
  KeycloakRealm :: string
  ContextKey :: string
  Claims :: "claims_ref option"
  TokenLookup :: string
  AuthScheme :: string
  gocloakClient :: "GoCloak option"

definition HeaderAuthorization :: string where
  "HeaderAuthorization = ''Authorization''"

definition DefaultKeycloakConfig :: KeycloakConfig where
  "DefaultKeycloakConfig =
     \<lparr>Skipper = Some DefaultSkipper,
      BeforeFunc = None,
      SuccessHandler = None,
      ErrorHandler = None,
      ErrorHandlerWithContext = None,
      KeycloakURL = [],
      KeycloakRealm = [],
      ContextKey = ''user'',
      Claims = Some DefaultClaims,
      TokenLookup = ''header:'' @ HeaderAuthorization,
      AuthScheme = ''Bearer'',
      gocloakClient = None\<rparr>"

text \<open>
  \<^verbatim>\<open>strings.Split(s, sep)\<close> for a separator of one byte, the only way the gate calls
  it: the fields between the separators, one more than there are separators.
\<close>

fun strings_Split :: "string \<Rightarrow> char \<Rightarrow> string list" where
  "strings_Split [] sep = [[]]"
| "strings_Split (c # cs) sep =
     (if c = sep then [] # strings_Split cs sep
      else (case strings_Split cs sep of
              [] \<Rightarrow> [[c]]
            | p # ps \<Rightarrow> (c # p) # ps))"

text \<open>
  Lines 108--127 of \<^verbatim>\<open>KeycloakWithConfig\<close>: the defaults, the panic on an empty URL,
  and the client made by \<^verbatim>\<open>gocloak.NewClient\<close> (a parameter: it belongs to gocloak).
\<close>

definition Keycloak_defaults ::
  "(string \<Rightarrow> GoCloak) \<Rightarrow> KeycloakConfig \<Rightarrow> panic + KeycloakConfig" where
  "Keycloak_defaults NewClient config =
     (let config = (if Skipper config = None
                    then config\<lparr>Skipper := Skipper DefaultKeycloakConfig\<rparr> else config)
      in if KeycloakURL config = []
         then Inl (ConfigPanic ''echo: keycloak middleware requires keycloak url'')
         else
           let config = (if ContextKey config = []
                         then config\<lparr>ContextKey := ContextKey DefaultKeycloakConfig\<rparr>
                         else config);
               config = (if Claims config = None
                         then config\<lparr>Claims := Claims DefaultKeycloakConfig\<rparr>
                         else config);
               config = (if TokenLookup config = []
                         then config\<lparr>TokenLookup := TokenLookup DefaultKeycloakConfig\<rparr>
                         else config);
               config = (if AuthScheme config = []
                         then config\<lparr>AuthScheme := AuthScheme DefaultKeycloakConfig\<rparr>
                         else config)
           in Inr (config\<lparr>gocloakClient := Some (NewClient (KeycloakURL config))\<rparr>))"

text \<open>
  Lines 129--139: the extractor. \<^verbatim>\<open>parts[1]\<close> is read before the switch, so a
  lookup string with no colon panics with an index out of range.
\<close>

definition Keycloak_extractor ::
  "(string \<Rightarrow> string) \<Rightarrow> KeycloakConfig \<Rightarrow> panic + tokenExtractor" where
  "Keycloak_extractor unicodeLower config =
     (let parts = strings_Split (TokenLookup config) (CHR '':'')
      in if length parts < 2 then Inl IndexOutOfRange
         else
           let extractor = tokenFromHeader unicodeLower (parts ! 1) (AuthScheme config)
           in if parts ! 0 = ''query'' then Inr (tokenFromQuery (parts ! 1))
              else if parts ! 0 = ''param'' then Inr (tokenFromParam (parts ! 1))
              else if parts ! 0 = ''cookie'' then Inr (tokenFromCookie (parts ! 1))
              else Inr extractor)"

text \<open>
  Lines 162--167: the decode call. The type assertion \<^verbatim>\<open>config.Claims.(jwt.Claims)\<close>
  on a value whose static type is \<^verbatim>\<open>jwt.Claims\<close> succeeds exactly when the interface
  is not \<^verbatim>\<open>nil\<close>. The custom-claims call is handed the object \<^verbatim>\<open>config.Claims\<close> refers
  to, with what it holds at that moment, and leaves it changed. The result is the token
  pointer, the error, what the shared default map holds after the call and the value
  of \<^verbatim>\<open>config.Claims\<close> after it (the \<^verbatim>\<open>else\<close> branch assigns the returned
  \<^verbatim>\<open>*jwt.MapClaims\<close> to it).
\<close>

definition Keycloak_decode ::
  "claims \<Rightarrow> KeycloakConfig \<Rightarrow> string
     \<Rightarrow> panic + (Token option \<times> error option \<times> claims \<times> claims_ref option)" where
  "Keycloak_decode shared config auth =
     (case gocloakClient config of
        None \<Rightarrow> Inl NilPointerDereference
      | Some client \<Rightarrow>
          (case Claims config of
             Some DefaultClaims \<Rightarrow>
               (case DecodeAccessTokenCustomClaims client auth (KeycloakRealm config) shared of
                  (token, err, shared') \<Rightarrow> Inr (token, err, shared', Some DefaultClaims))
           | Some (OwnClaims own) \<Rightarrow>
               (case DecodeAccessTokenCustomClaims client auth (KeycloakRealm config) own of
                  (token, err, own') \<Rightarrow> Inr (token, err, shared, Some (OwnClaims own')))
           | None \<Rightarrow>
               (case DecodeAccessToken client auth (KeycloakRealm config) of
                  (token, mc, err) \<Rightarrow>
                    Inr (token, err, shared, Some (OwnClaims (MapClaimsPtr mc))))))"

text \<open>
  Lines 152--160: what the handler returns when the extractor failed. With no hook
  the extractor's own error is returned.
\<close>

definition Keycloak_extract_failed ::
  "KeycloakConfig \<Rightarrow> error \<Rightarrow> Context \<Rightarrow> error option \<times> Context" where
  "Keycloak_extract_failed config err c =
     (case ErrorHandler config of
        Some h \<Rightarrow> (h (Some err), c)
      | None \<Rightarrow>
          (case ErrorHandlerWithContext config of
             Some h \<Rightarrow> h (Some err) c
           | None \<Rightarrow> (Some err, c)))"

text \<open>Lines 169--173: the token is bound, the success hook runs, \<^verbatim>\<open>next\<close> is called.\<close>

definition Keycloak_succeed ::
  "KeycloakConfig \<Rightarrow> HandlerFunc \<Rightarrow> Token \<Rightarrow> Context
     \<Rightarrow> panic + (error option \<times> Context)" where
  "Keycloak_succeed config next token c =
     (let c = ctx_Set c (ContextKey config) (TokenPtr (Some token));
          c = (case SuccessHandler config of None \<Rightarrow> c | Some success \<Rightarrow> success c)
      in next c)"

text \<open>
  Lines 175--185: what the handler returns when the decode call failed or the token
  is not valid; \<^verbatim>\<open>err\<close> is \<^verbatim>\<open>nil\<close> in the second case.
\<close>

definition Keycloak_decode_failed ::
  "KeycloakConfig \<Rightarrow> error option \<Rightarrow> Context \<Rightarrow> error option \<times> Context" where
  "Keycloak_decode_failed config err c =
     (case ErrorHandler config of
        Some h \<Rightarrow> (h err, c)
      | None \<Rightarrow>
          (case ErrorHandlerWithContext config of
             Some h \<Rightarrow> h err c
           | None \<Rightarrow>
               (Some (HTTPError StatusUnauthorized (Text ''invalid or expired token'') err), c)))"

text \<open>
  Lines 142--186: one request through the handler the middleware wraps around
  \<^verbatim>\<open>next\<close>, from the state the request finds: what the shared default map holds and
  the configuration the closure captured. The result is what the handler returns
  (its \<^verbatim>\<open>error\<close> and the context, or a panic), and the state the gate's own steps
  leave: the shared map and the captured configuration after the decode call. In
  \<^verbatim>\<open>err == nil && token.Valid\<close> the token is read only when \<^verbatim>\<open>err\<close> is \<^verbatim>\<open>nil\<close>, and
  reading \<^verbatim>\<open>Valid\<close> through a \<^verbatim>\<open>nil\<close> token panics.
\<close>

definition Keycloak_serve ::
  "claims \<Rightarrow> KeycloakConfig \<Rightarrow> tokenExtractor \<Rightarrow> HandlerFunc \<Rightarrow> Context
     \<Rightarrow> (panic + (error option \<times> Context)) \<times> claims \<times> KeycloakConfig" where
  "Keycloak_serve shared config extractor next c0 =
     (case Skipper config of
        None \<Rightarrow> (Inl NilPointerDereference, shared, config)
      | Some skipper \<Rightarrow>
          (if skipper c0 then (next c0, shared, config)
           else
             (let c = (case BeforeFunc config of None \<Rightarrow> c0 | Some before \<Rightarrow> before c0)
              in (case extractor c of
                    Inl err \<Rightarrow> (Inr (Keycloak_extract_failed config err c), shared, config)
                  | Inr auth \<Rightarrow>
                      (case Keycloak_decode shared config auth of
                         Inl p \<Rightarrow> (Inl p, shared, config)
                       | Inr (token, err, shared', claims') \<Rightarrow>
                           (let config' = config\<lparr>Claims := claims'\<rparr>
                            in ((case err of
                                   Some e \<Rightarrow> Inr (Keycloak_decode_failed config' err c)
                                 | None \<Rightarrow>
                                     (case token of
                                        None \<Rightarrow> Inl NilPointerDereference
                                      | Some t \<Rightarrow>
                                          (if Token_Valid t
                                           then Keycloak_succeed config' next t c
                                           else Inr (Keycloak_decode_failed config' err c)))),
                                shared', config')))))))"

text \<open>What the handler returns for one request.\<close>

definition Keycloak_handler ::
  "claims \<Rightarrow> KeycloakConfig \<Rightarrow> tokenExtractor \<Rightarrow> HandlerFunc \<Rightarrow> HandlerFunc" where
  "Keycloak_handler shared config extractor next c0 =
     fst (Keycloak_serve shared config extractor next c0)"


text \<open>
  \<^verbatim>\<open>KeycloakWithConfig\<close> returns a closure over the configuration and the extractor:
  the gate. A request is served from it with \<open>Keycloak_serve\<close>.
\<close>

record Keycloak_gate =
  gate_config :: KeycloakConfig
  gate_extractor :: tokenExtractor

definition KeycloakWithConfig ::
  "(string \<Rightarrow> GoCloak) \<Rightarrow> (string \<Rightarrow> string) \<Rightarrow> KeycloakConfig \<Rightarrow> panic + Keycloak_gate" where
  "KeycloakWithConfig NewClient unicodeLower config =
     (case Keycloak_defaults NewClient config of
        Inl p \<Rightarrow> Inl p
      | Inr config \<Rightarrow>
          (case Keycloak_extractor unicodeLower config of
             Inl p \<Rightarrow> Inl p
           | Inr extractor \<Rightarrow> Inr \<lparr>gate_config = config, gate_extractor = extractor\<rparr>))"

definition Keycloak ::
  "(string \<Rightarrow> GoCloak) \<Rightarrow> (string \<Rightarrow> string) \<Rightarrow> string \<Rightarrow> string \<Rightarrow> panic + Keycloak_gate" where
  "Keycloak NewClient unicodeLower url realm =
     KeycloakWithConfig NewClient unicodeLower
       (DefaultKeycloakConfig\<lparr>KeycloakURL := url, KeycloakRealm := realm\<rparr>)"

section \<open>The authorization gate (keycloak\_roles.go)\<close>

record KeycloakRolesConfig = Hooks +
  KeycloakRoles :: "string list"
  TokenContextKey :: string
  RolesContextKey :: string

definition DefaultKeycloakRolesConfig :: KeycloakRolesConfig where
  "DefaultKeycloakRolesConfig =
     \<lparr>Skipper = Some DefaultSkipper,
      BeforeFunc = None,
      SuccessHandler = None,
      ErrorHandler = None,
      ErrorHandlerWithContext = None,
      KeycloakRoles = [],
      TokenContextKey = ''user'',
      RolesContextKey = ''roles''\<rparr>"

text \<open>\<^verbatim>\<open>funk.ContainsString(s, e)\<close>: a linear search.\<close>

fun ContainsString :: "string list \<Rightarrow> string \<Rightarrow> bool" where
  "ContainsString [] e = False"
| "ContainsString (v # s) e = (if v = e then True else ContainsString s e)"

text \<open>
  Line 98: \<^verbatim>\<open>c.Get(DefaultKeycloakRolesConfig.TokenContextKey).(*jwt.Token)\<close>. The key
  is the one of the default configuration; the assertion has no \<^verbatim>\<open>ok\<close> result, so
  it panics unless the slot holds a \<^verbatim>\<open>*jwt.Token\<close>.
\<close>

definition Roles_token :: "Context \<Rightarrow> panic + Token option" where
  "Roles_token c =
     (case ctx_Get c (TokenContextKey DefaultKeycloakRolesConfig) of
        None \<Rightarrow> Inl InterfaceIsNil
      | Some (TokenPtr token) \<Rightarrow> Inr token
      | Some _ \<Rightarrow> Inl InterfaceWrongType)"

text \<open>
  Lines 111--113: \<^verbatim>\<open>roles = append(roles, r.(string))\<close> for each element; the
  assertion has no \<^verbatim>\<open>ok\<close> result.
\<close>

fun Roles_strings :: "any list \<Rightarrow> string list \<Rightarrow> panic + string list" where
  "Roles_strings [] roles = Inr roles"
| "Roles_strings (AString r # rolesRaw) roles = Roles_strings rolesRaw (roles @ [r])"
| "Roles_strings (ANil # rolesRaw) roles = Inl InterfaceIsNil"
| "Roles_strings (_ # rolesRaw) roles = Inl InterfaceWrongType"

text \<open>Lines 114--119: the loop over the required roles, left at the first one missing.\<close>

fun Roles_check :: "string list \<Rightarrow> string list \<Rightarrow> error option \<Rightarrow> error option" where
  "Roles_check [] roles err = err"
| "Roles_check (r # required) roles err =
     (if \<not> ContainsString roles r then Some ErrRolesInvalid
      else Roles_check required roles err)"

text \<open>
  Lines 99--122: from the token's claims to the pair of \<^verbatim>\<open>roles\<close> and \<^verbatim>\<open>err\<close>.
\<close>

definition Roles_resolve ::
  "KeycloakRolesConfig \<Rightarrow> Token \<Rightarrow> panic + (string list \<times> error option)" where
  "Roles_resolve config token =
     (case Token_Claims token of
        MapClaims claims \<Rightarrow>
          (case map_of claims ''realm_access'' of
             Some (AMap realmAcces) \<Rightarrow>
               (case map_of realmAcces ''roles'' of
                  Some (AList rolesRaw) \<Rightarrow>
                    (case Roles_strings rolesRaw [] of
                       Inl p \<Rightarrow> Inl p
                     | Inr roles \<Rightarrow>
                         Inr (roles, Roles_check (KeycloakRoles config) roles None))
                | _ \<Rightarrow> Inr ([], Some ErrRolesMissing))
           | _ \<Rightarrow> Inr ([], Some ErrRealmAccessMissing))
      | _ \<Rightarrow> Inr ([], Some ErrClaimsMissing))"

text \<open>Lines 124--128.\<close>

definition Roles_succeed ::
  "KeycloakRolesConfig \<Rightarrow> HandlerFunc \<Rightarrow> string list \<Rightarrow> Context
     \<Rightarrow> panic + (error option \<times> Context)" where
  "Roles_succeed config next roles c =
     (let c = ctx_Set c (RolesContextKey config) (Strings roles);
          c = (case SuccessHandler config of None \<Rightarrow> c | Some success \<Rightarrow> success c)
      in next c)"

text \<open>
  Lines 130--141. The default answer has code 403 and the text of
  \<^verbatim>\<open>ErrRolesInvalid.Error()\<close> as message, whatever \<^verbatim>\<open>err\<close> is; \<^verbatim>\<open>err\<close> is its
  \<^verbatim>\<open>Internal\<close> field.
\<close>

definition Roles_failed ::
  "KeycloakRolesConfig \<Rightarrow> error option \<Rightarrow> Context \<Rightarrow> error option \<times> Context" where
  "Roles_failed config err c =
     (case ErrorHandler config of
        Some h \<Rightarrow> (h err, c)
      | None \<Rightarrow>
          (case ErrorHandlerWithContext config of
             Some h \<Rightarrow> h err c
           | None \<Rightarrow> (Some (HTTPError StatusForbidden (ErrorText ErrRolesInvalid) err), c)))"

text \<open>Lines 87--141: the handler.\<close>

definition KeycloakRoles_handler ::
  "KeycloakRolesConfig \<Rightarrow> HandlerFunc \<Rightarrow> HandlerFunc" where
  "KeycloakRoles_handler config next c0 =
     (case Skipper config of
        None \<Rightarrow> Inl NilPointerDereference
      | Some skipper \<Rightarrow>
          (if skipper c0 then next c0
           else
             (let c = (case BeforeFunc config of None \<Rightarrow> c0 | Some before \<Rightarrow> before c0)
              in (case Roles_token c of
                    Inl p \<Rightarrow> Inl p
                  | Inr None \<Rightarrow> Inl NilPointerDereference
                  | Inr (Some token) \<Rightarrow>
                      (case Roles_resolve config token of
                         Inl p \<Rightarrow> Inl p
                       | Inr (roles, err) \<Rightarrow>
                           (if err = None \<and> Token_Valid token
                            then Roles_succeed config next roles c
                            else Inr (Roles_failed config err c)))))))"

text \<open>Lines 74--85: the defaults and the panic on an empty role list.\<close>

definition KeycloakRolesWithConfig :: "KeycloakRolesConfig \<Rightarrow> panic + MiddlewareFunc" where
  "KeycloakRolesWithConfig config =
     (let config = (if Skipper config = None
                    then config\<lparr>Skipper := Skipper DefaultKeycloakRolesConfig\<rparr> else config)
      in if length (KeycloakRoles config) = 0
         then Inl (ConfigPanic ''echo: keycloak roles middleware requires keycloak roles'')
         else
           (let config = (if TokenContextKey config = []
                          then config\<lparr>TokenContextKey :=
                                         TokenContextKey DefaultKeycloakRolesConfig\<rparr>
                          else config)
            in Inr (KeycloakRoles_handler config)))"

text \<open>
  The function \<^verbatim>\<open>KeycloakRoles(roles)\<close>; in this theory the name \<open>KeycloakRoles\<close> is
  the field of the configuration.
\<close>

definition KeycloakRoles_func :: "string list \<Rightarrow> panic + MiddlewareFunc" where
  "KeycloakRoles_func roles =
     KeycloakRolesWithConfig (DefaultKeycloakRolesConfig\<lparr>KeycloakRoles := roles\<rparr>)"

section \<open>The framework's error handler (echo)\<close>



section \<open>The specification's wording\<close>

text \<open>
  The header extractor as the specification words it: the scheme, compared without
  regard to case, then one space, then the token.
\<close>

definition spec_tokenFromHeader ::
  "(string \<Rightarrow> string) \<Rightarrow> string \<Rightarrow> string \<Rightarrow> tokenExtractor" where
  "spec_tokenFromHeader unicodeLower header authScheme c =
     (let auth = Header c header;
          l = length authScheme
      in if length auth > l + 1
            \<and> ToLower unicodeLower (take l auth) = ToLower unicodeLower authScheme
            \<and> auth ! l = CHR '' ''
         then Inr (drop (l + 1) auth)
         else Inl ErrTokenMissing)"

text \<open>
  Failure handling as the specification words it: the context-free error hook if
  there is one, else the context-aware one, else a default response. For the
  authentication gate the default is HTTP 401 with the message
  \<^verbatim>\<open>invalid or expired token\<close>, wrapping the error.
\<close>

definition spec_on_failure ::
  "'a Hooks_scheme \<Rightarrow> error option \<Rightarrow> Context \<Rightarrow> error \<Rightarrow> error option \<times> Context" where
  "spec_on_failure config err c default_response =
     (case ErrorHandler config of
        Some h \<Rightarrow> (h err, c)
      | None \<Rightarrow>
          (case ErrorHandlerWithContext config of
             Some h \<Rightarrow> h err c
           | None \<Rightarrow> (Some default_response, c)))"

definition spec_Unauthorized :: "error option \<Rightarrow> error" where
  "spec_Unauthorized err = HTTPError 401 (Text ''invalid or expired token'') err"


section \<open>Construction and one request\<close>

text \<open>
  A gate is constructed, then handles one request; a panic of the constructor is the
  result.
\<close>

definition run_Keycloak ::
  "(string \<Rightarrow> GoCloak) \<Rightarrow> (string \<Rightarrow> string) \<Rightarrow> KeycloakConfig \<Rightarrow> claims
     \<Rightarrow> HandlerFunc \<Rightarrow> HandlerFunc" where
  "run_Keycloak NewClient unicodeLower config shared next c =
     (case KeycloakWithConfig NewClient unicodeLower config of
        Inl p \<Rightarrow> Inl p
      | Inr gate \<Rightarrow> Keycloak_handler shared (gate_config gate) (gate_extractor gate) next c)"

definition run_KeycloakRoles :: "KeycloakRolesConfig \<Rightarrow> HandlerFunc \<Rightarrow> HandlerFunc" where
  "run_KeycloakRoles config next c =
     (case KeycloakRolesWithConfig config of
        Inl p \<Rightarrow> Inl p
      | Inr middleware \<Rightarrow> middleware next c)"

section \<open>Example inputs\<close>

text \<open>A request whose only header is \<^verbatim>\<open>Authorization\<close>, with an empty context store.\<close>

definition example_request :: "string \<Rightarrow> Context" where
  "example_request auth =
     \<lparr>Header = (\<lambda>name. if name = ''Authorization'' then auth else []),
      QueryParam = (\<lambda>name. []),
      Param = (\<lambda>name. []),
      Cookie = (\<lambda>name. None),
      Store = (\<lambda>key. None)\<rparr>"

text \<open>The last handler of a chain: it answers without an error.\<close>

definition example_next :: HandlerFunc where
  "example_next c = Inr (None, c)"

text \<open>
  Claims that carry the roles \<^verbatim>\<open>user\<close> and \<^verbatim>\<open>admin\<close>, a valid token with them, and
  an identity-provider client that accepts the raw token \<^verbatim>\<open>abc123\<close> and no other.
  Its custom-claims method puts the claims into the object it is handed, in front of
  what a map held before, and returns a token with that object as claims; its default
  method returns the token with the claims behind a pointer, as gocloak's does.
\<close>

definition example_claims :: "(string \<times> any) list" where
  "example_claims =
     [(''realm_access'', AMap [(''roles'', AList [AString ''user'', AString ''admin''])])]"

definition example_token :: Token where
  "example_token = \<lparr>Token_Claims = MapClaims example_claims, Token_Valid = True\<rparr>"

definition example_fill :: "claims \<Rightarrow> claims" where
  "example_fill object =
     (case object of
        MapClaims held \<Rightarrow> MapClaims (example_claims @ held)
      | other \<Rightarrow> other)"

definition example_client :: GoCloak where
  "example_client =
     \<lparr>DecodeAccessToken = (\<lambda>accessToken realm.
        if accessToken = ''abc123''
        then (Some (example_token\<lparr>Token_Claims := MapClaimsPtr (Some example_claims)\<rparr>),
              Some example_claims, None)
        else (None, None, Some (ForeignError ''token is malformed''))),
      DecodeAccessTokenCustomClaims = (\<lambda>accessToken realm object.
        if accessToken = ''abc123''
        then (Some \<lparr>Token_Claims = example_fill object, Token_Valid = True\<rparr>, None,
              example_fill object)
        else (None, Some (ForeignError ''token is malformed''), object))\<rparr>"

definition example_NewClient :: "string \<Rightarrow> GoCloak" where
  "example_NewClient url = example_client"

text \<open>The authentication gate of the example: \<^verbatim>\<open>Keycloak("http://localhost:8080", "test")\<close>.\<close>

definition example_config :: KeycloakConfig where
  "example_config =
     DefaultKeycloakConfig\<lparr>KeycloakURL := ''http://localhost:8080'', KeycloakRealm := ''test''\<rparr>"

text \<open>An error hook.\<close>

definition example_teapot :: "error option \<Rightarrow> error option" where
  "example_teapot err = Some (HTTPError 418 (Text ''teapot'') err)"

text \<open>The authorization gate of the example: \<^verbatim>\<open>KeycloakRoles([]string{"admin"})\<close>.\<close>

definition example_roles_config :: KeycloakRolesConfig where
  "example_roles_config = DefaultKeycloakRolesConfig\<lparr>KeycloakRoles := [''admin'']\<rparr>"

text \<open>A context in which a valid token with the given claims is bound under \<^verbatim>\<open>user\<close>.\<close>

definition example_bound :: "claims \<Rightarrow> Context" where
  "example_bound claims =
     ctx_Set (example_request []) ''user''
       (TokenPtr (Some \<lparr>Token_Claims = claims, Token_Valid = True\<rparr>))"

text \<open>
  Both gates in a chain, the same key given to both: the authentication gate's
  \<^verbatim>\<open>ContextKey\<close> and the authorization gate's \<^verbatim>\<open>TokenContextKey\<close>. The shared default
  map is as the package initialises it.
\<close>

definition example_chain :: "(string \<Rightarrow> string) \<Rightarrow> string \<Rightarrow> HandlerFunc" where
  "example_chain unicodeLower key c =
     run_Keycloak example_NewClient unicodeLower (example_config\<lparr>ContextKey := key\<rparr>)
       initial_shared
       (run_KeycloakRoles (example_roles_config\<lparr>TokenContextKey := key\<rparr>) example_next) c"

section \<open>Properties\<close>

subsection \<open>Header extraction\<close>

lemma header_split:
  "(length auth > l + 1 \<and> f (take l auth) = g) \<longleftrightarrow>
   (\<exists>p sep t. auth = p @ sep # t \<and> t \<noteq> [] \<and> length p = l \<and> f p = g)"
proof
  assume h: "length auth > l + 1 \<and> f (take l auth) = g"
  then have "auth = take l auth @ (auth ! l) # drop (l + 1) auth"
    by (simp add: Cons_nth_drop_Suc)
  moreover from h have "drop (l + 1) auth \<noteq> []" by simp
  moreover from h have "length (take l auth) = l" by simp
  ultimately show "\<exists>p sep t. auth = p @ sep # t \<and> t \<noteq> [] \<and> length p = l \<and> f p = g"
    using h by blast
next
  assume "\<exists>p sep t. auth = p @ sep # t \<and> t \<noteq> [] \<and> length p = l \<and> f p = g"
  then obtain p sep t where "auth = p @ sep # t" "t \<noteq> []" "length p = l" "f p = g" by blast
  then show "length auth > l + 1 \<and> f (take l auth) = g"
    by (cases t) auto
qed

text \<open>On the ASCII strings of the examples the library's rune mapping is not reached.\<close>

lemma ToLower_Bearer:
  "ToLower unicodeLower ''Bearer'' = ''bearer''"
  "ToLower unicodeLower ''bearer'' = ''bearer''"
proof -
  have "isASCII ''Bearer''" "isASCII ''bearer''" by code_simp+
  moreover have "map lower_byte ''Bearer'' = ''bearer''" "map lower_byte ''bearer'' = ''bearer''"
    by code_simp+
  ultimately show "ToLower unicodeLower ''Bearer'' = ''bearer''"
    "ToLower unicodeLower ''bearer'' = ''bearer''"
    by (simp_all add: ToLower_def)
qed

lemma example_header:
  "Header (example_request auth) ''Authorization'' = auth"
  by (simp add: example_request_def)

lemma example_header_missing:
  "tokenFromHeader unicodeLower ''Authorization'' ''Bearer'' (example_request [])
     = Inl ErrTokenMissing"
  by (simp add: tokenFromHeader_def example_header)

lemma example_header_abc123:
  "tokenFromHeader unicodeLower ''Authorization'' ''Bearer'' (example_request ''Bearer abc123'')
     = Inr ''abc123''"
  by (simp add: tokenFromHeader_def example_header ToLower_Bearer)

lemma example_header_xyz:
  "tokenFromHeader unicodeLower ''Authorization'' ''Bearer'' (example_request ''Bearer xyz'')
     = Inr ''xyz''"
  by (simp add: tokenFromHeader_def example_header ToLower_Bearer)

text \<open>
  C4, as stated, fails: the byte after the scheme is skipped without being looked at.
  The header \<^verbatim>\<open>BearerXabc123\<close> has no space after the scheme, so the specification's
  extractor answers \<open>ErrTokenMissing\<close>, and the code returns the token \<^verbatim>\<open>abc123\<close>,
  whatever the library does with strings that are not ASCII.
\<close>

theorem tokenFromHeader_counterexample:
  "\<forall>unicodeLower.
     spec_tokenFromHeader unicodeLower ''Authorization'' ''Bearer''
         (example_request ''BearerXabc123'')
       = Inl ErrTokenMissing
     \<and> tokenFromHeader unicodeLower ''Authorization'' ''Bearer''
         (example_request ''BearerXabc123'')
       = Inr ''abc123''"
  by (simp add: spec_tokenFromHeader_def tokenFromHeader_def example_header ToLower_Bearer)

text \<open>
  C4, amended: the header extractor returns a token exactly when the header value is
  a prefix as long as the scheme and equal to it after \<^verbatim>\<open>strings.ToLower\<close> of both,
  then any one byte, then a non-empty rest; the token is that rest. In every other
  case it returns \<open>ErrTokenMissing\<close>. The header \<^verbatim>\<open>Bearer abc123\<close> with scheme
  \<^verbatim>\<open>Bearer\<close> yields \<^verbatim>\<open>abc123\<close>. This holds for every rune mapping of the library.
\<close>

theorem tokenFromHeader_any_separator:
  "(tokenFromHeader unicodeLower header authScheme c = Inr token \<longleftrightarrow>
      (\<exists>p sep. Header c header = p @ sep # token \<and> token \<noteq> []
         \<and> length p = length authScheme
         \<and> ToLower unicodeLower p = ToLower unicodeLower authScheme))
   \<and> (tokenFromHeader unicodeLower header authScheme c = Inl ErrTokenMissing \<longleftrightarrow>
      \<not> (\<exists>p sep t. Header c header = p @ sep # t \<and> t \<noteq> []
         \<and> length p = length authScheme
         \<and> ToLower unicodeLower p = ToLower unicodeLower authScheme))
   \<and> (tokenFromHeader unicodeLower header authScheme c = Inl ErrTokenMissing
        \<or> (\<exists>t. tokenFromHeader unicodeLower header authScheme c = Inr t))
   \<and> tokenFromHeader unicodeLower ''Authorization'' ''Bearer''
        (example_request ''Bearer abc123'') = Inr ''abc123''"
proof (intro conjI)
  let ?auth = "Header c header" and ?l = "length authScheme"
  let ?low = "ToLower unicodeLower"
  let ?ok = "length ?auth > ?l + 1 \<and> ?low (take ?l ?auth) = ?low authScheme"
  have res: "tokenFromHeader unicodeLower header authScheme c =
      (if ?ok then Inr (drop (?l + 1) ?auth) else Inl ErrTokenMissing)"
    by (simp add: tokenFromHeader_def Let_def)
  have split: "?ok \<longleftrightarrow> (\<exists>p sep t. ?auth = p @ sep # t \<and> t \<noteq> []
         \<and> length p = ?l \<and> ?low p = ?low authScheme)"
    by (rule header_split)
  show "tokenFromHeader unicodeLower header authScheme c = Inr token \<longleftrightarrow>
      (\<exists>p sep. ?auth = p @ sep # token \<and> token \<noteq> []
         \<and> length p = ?l \<and> ?low p = ?low authScheme)"
  proof
    assume "tokenFromHeader unicodeLower header authScheme c = Inr token"
    with res have ok: ?ok and tok: "token = drop (?l + 1) ?auth"
      by (auto split: if_splits)
    from ok split obtain p sep t where
      pst: "?auth = p @ sep # t" "t \<noteq> []" "length p = ?l" "?low p = ?low authScheme"
      by blast
    from pst(1) pst(3) tok have "token = t" by simp
    with pst show "\<exists>p sep. ?auth = p @ sep # token \<and> token \<noteq> []
         \<and> length p = ?l \<and> ?low p = ?low authScheme" by blast
  next
    assume "\<exists>p sep. ?auth = p @ sep # token \<and> token \<noteq> []
         \<and> length p = ?l \<and> ?low p = ?low authScheme"
    then obtain p sep where
      pst: "?auth = p @ sep # token" "token \<noteq> []" "length p = ?l"
           "?low p = ?low authScheme" by blast
    then have ?ok using split by blast
    moreover from pst(1) pst(3) have "drop (?l + 1) ?auth = token" by simp
    ultimately show "tokenFromHeader unicodeLower header authScheme c = Inr token"
      using res by simp
  qed
  show "tokenFromHeader unicodeLower header authScheme c = Inl ErrTokenMissing \<longleftrightarrow>
      \<not> (\<exists>p sep t. ?auth = p @ sep # t \<and> t \<noteq> []
         \<and> length p = ?l \<and> ?low p = ?low authScheme)"
    using res split by auto
  show "tokenFromHeader unicodeLower header authScheme c = Inl ErrTokenMissing
        \<or> (\<exists>t. tokenFromHeader unicodeLower header authScheme c = Inr t)"
    using res by auto
  show "tokenFromHeader unicodeLower ''Authorization'' ''Bearer''
        (example_request ''Bearer abc123'') = Inr ''abc123''"
    by (rule example_header_abc123)
qed

text \<open>
  The theorem at two headers: a lower-case scheme followed by an underscore, and the
  scheme with a space and nothing after it; and at a scheme and a header that are not
  ASCII, where the match is the library's: if the rune mapping sends both two-byte
  strings to the same string, the token after the separator is returned.
\<close>

theorem tokenFromHeader_any_separator_witness:
  "\<forall>unicodeLower.
     tokenFromHeader unicodeLower ''Authorization'' ''Bearer'' (example_request ''bearer_xyz'')
       = Inr ''xyz''
     \<and> tokenFromHeader unicodeLower ''Authorization'' ''Bearer'' (example_request ''Bearer '')
       = Inl ErrTokenMissing
     \<and> tokenFromHeader (\<lambda>s. if s = [CHR 0xC3, CHR 0x89] then [CHR 0xC3, CHR 0xA9] else s)
         ''Authorization'' [CHR 0xC3, CHR 0x89]
         (example_request ([CHR 0xC3, CHR 0xA9] @ '' tok''))
       = Inr ''tok''"
proof (intro allI conjI)
  fix unicodeLower :: "string \<Rightarrow> string"
  have ex: "\<exists>p sep. Header (example_request ''bearer_xyz'') ''Authorization'' = p @ sep # ''xyz''
      \<and> ''xyz'' \<noteq> [] \<and> length p = length ''Bearer''
      \<and> ToLower unicodeLower p = ToLower unicodeLower ''Bearer''"
    by (intro exI [of _ "''bearer''"] exI [of _ "CHR ''_''"])
       (simp add: example_header ToLower_Bearer)
  show "tokenFromHeader unicodeLower ''Authorization'' ''Bearer''
        (example_request ''bearer_xyz'') = Inr ''xyz''"
    by (rule tokenFromHeader_any_separator
          [of unicodeLower "''Authorization''" "''Bearer''" "example_request ''bearer_xyz''"
              "''xyz''", THEN conjunct1, THEN iffD2, OF ex])
  show "tokenFromHeader unicodeLower ''Authorization'' ''Bearer'' (example_request ''Bearer '')
       = Inl ErrTokenMissing"
    by (simp add: tokenFromHeader_def example_header)
next
  let ?low = "\<lambda>s. if s = [CHR 0xC3, CHR 0x89] then [CHR 0xC3, CHR 0xA9] else s"
  have na: "\<not> isASCII [CHR 0xC3, CHR 0x89]" "\<not> isASCII [CHR 0xC3, CHR 0xA9]"
    by code_simp+
  have ne: "[CHR 0xC3, CHR 0xA9] \<noteq> [CHR 0xC3, CHR 0x89]" by simp
  have low: "ToLower ?low [CHR 0xC3, CHR 0xA9] = ToLower ?low [CHR 0xC3, CHR 0x89]"
    using na ne by (simp add: ToLower_def)
  have ex: "\<exists>p sep. Header (example_request ([CHR 0xC3, CHR 0xA9] @ '' tok'')) ''Authorization''
        = p @ sep # ''tok''
      \<and> ''tok'' \<noteq> [] \<and> length p = length [CHR 0xC3, CHR 0x89]
      \<and> ToLower ?low p = ToLower ?low [CHR 0xC3, CHR 0x89]"
    using low
    by (intro exI [of _ "[CHR 0xC3, CHR 0xA9]"] exI [of _ "CHR '' ''"])
       (simp add: example_header)
  show "tokenFromHeader ?low ''Authorization'' [CHR 0xC3, CHR 0x89]
         (example_request ([CHR 0xC3, CHR 0xA9] @ '' tok'')) = Inr ''tok''"
    by (rule tokenFromHeader_any_separator
          [of ?low "''Authorization''" "[CHR 0xC3, CHR 0x89]"
              "example_request ([CHR 0xC3, CHR 0xA9] @ '' tok'')" "''tok''",
           THEN conjunct1, THEN iffD2, OF ex])
qed

subsection \<open>The membership check\<close>

lemma ContainsString_set: "ContainsString s e \<longleftrightarrow> e \<in> set s"
  by (induction s) auto

lemma Roles_check_all:
  "Roles_check required roles None =
     (if set required \<subseteq> set roles then None else Some ErrRolesInvalid)"
  by (induction required) (auto simp: ContainsString_set)

lemma Roles_check_first_missing:
  "set xs \<subseteq> set roles \<Longrightarrow> r \<notin> set roles \<Longrightarrow>
     Roles_check (xs @ r # ys) roles err = Some ErrRolesInvalid"
  by (induction xs) (auto simp: ContainsString_set)

text \<open>
  C7: the membership check leaves \<^verbatim>\<open>err\<close> \<^verbatim>\<open>nil\<close> exactly when every required role is
  in the resolved list; otherwise it yields \<open>ErrRolesInvalid\<close>, and it does so at the
  first required role that is missing, whatever follows that role in the list. The
  required roles \<^verbatim>\<open>admin, editor\<close> against the resolved roles \<^verbatim>\<open>editor\<close> yield
  \<open>ErrRolesInvalid\<close>.
\<close>

theorem Roles_check_correct:
  "(Roles_check required roles None = None \<longleftrightarrow> set required \<subseteq> set roles)
   \<and> (Roles_check required roles None = Some ErrRolesInvalid
        \<longleftrightarrow> \<not> set required \<subseteq> set roles)
   \<and> (\<forall>xs r ys. required = xs @ r # ys \<and> set xs \<subseteq> set roles \<and> r \<notin> set roles
        \<longrightarrow> Roles_check required roles None = Some ErrRolesInvalid
          \<and> Roles_check (xs @ r # ys) roles None = Roles_check (xs @ [r]) roles None)
   \<and> Roles_check [''admin'', ''editor''] [''editor''] None = Some ErrRolesInvalid"
proof (intro conjI allI impI)
  show "Roles_check required roles None = None \<longleftrightarrow> set required \<subseteq> set roles"
    by (simp add: Roles_check_all)
  show "Roles_check required roles None = Some ErrRolesInvalid
        \<longleftrightarrow> \<not> set required \<subseteq> set roles"
    by (simp add: Roles_check_all)
  show "Roles_check [''admin'', ''editor''] [''editor''] None = Some ErrRolesInvalid"
    by simp
next
  fix xs r ys
  assume h: "required = xs @ r # ys \<and> set xs \<subseteq> set roles \<and> r \<notin> set roles"
  then show "Roles_check required roles None = Some ErrRolesInvalid"
    by (simp add: Roles_check_first_missing)
  from h show "Roles_check (xs @ r # ys) roles None = Roles_check (xs @ [r]) roles None"
    by (simp add: Roles_check_first_missing)
qed

theorem Roles_check_correct_witness:
  "[''admin'', ''editor'', ''owner''] = [''admin''] @ ''editor'' # [''owner'']
   \<and> set [''admin''] \<subseteq> set [''admin'', ''user''] \<and> ''editor'' \<notin> set [''admin'', ''user'']
   \<and> Roles_check [''admin'', ''editor'', ''owner''] [''admin'', ''user''] None
       = Some ErrRolesInvalid
   \<and> Roles_check [''admin''] [''user'', ''admin''] None = None"
  using Roles_check_correct [of "[''admin'', ''editor'', ''owner'']" "[''admin'', ''user'']"]
    Roles_check_correct [of "[''admin'']" "[''user'', ''admin'']"]
  by simp

subsection \<open>Construction of the authentication gate\<close>

lemma Keycloak_defaults_ok:
  assumes "KeycloakURL config \<noteq> []"
  shows "Keycloak_defaults NewClient config =
     Inr (config\<lparr>
       Skipper := (case Skipper config of None \<Rightarrow> Some DefaultSkipper | Some s \<Rightarrow> Some s),
       ContextKey := (if ContextKey config = [] then ''user'' else ContextKey config),
       Claims := (case Claims config of None \<Rightarrow> Some DefaultClaims | Some ref \<Rightarrow> Some ref),
       TokenLookup := (if TokenLookup config = [] then ''header:Authorization''
                       else TokenLookup config),
       AuthScheme := (if AuthScheme config = [] then ''Bearer'' else AuthScheme config),
       gocloakClient := Some (NewClient (KeycloakURL config))\<rparr>)"
  using assms
  by (cases "Skipper config"; cases "Claims config")
     (simp_all add: Keycloak_defaults_def DefaultKeycloakConfig_def HeaderAuthorization_def Let_def)

lemma Split_not_Nil: "strings_Split s sep \<noteq> []"
  by (induction s) (auto split: list.splits)

lemma Split_no_sep: "sep \<notin> set s \<Longrightarrow> strings_Split s sep = [s]"
  by (induction s) auto

lemma Split_first: "sep \<notin> set p \<Longrightarrow> strings_Split (p @ sep # r) sep = p # strings_Split r sep"
  by (induction p) auto

lemma Split_hd: "hd (strings_Split s sep) = takeWhile (\<lambda>c. c \<noteq> sep) s"
  by (induction s) (auto split: list.splits simp: Split_not_Nil)

lemma Keycloak_extractor_header:
  assumes "TokenLookup config = source @ CHR '':'' # rest"
      and "CHR '':'' \<notin> set source"
      and "source \<noteq> ''query''" "source \<noteq> ''param''" "source \<noteq> ''cookie''"
  shows "Keycloak_extractor unicodeLower config =
     Inr (tokenFromHeader unicodeLower (takeWhile (\<lambda>c. c \<noteq> CHR '':'') rest)
            (AuthScheme config))"
proof -
  obtain n ps where r: "strings_Split rest (CHR '':'') = n # ps"
    using Split_not_Nil by (cases "strings_Split rest (CHR '':'')") auto
  then have n: "n = takeWhile (\<lambda>c. c \<noteq> CHR '':'') rest"
    using Split_hd [of rest "CHR '':''"] by simp
  have "strings_Split (TokenLookup config) (CHR '':'') = source # n # ps"
    using assms(1,2) r by (simp add: Split_first)
  then show ?thesis
    using assms(3-5) n by (simp add: Keycloak_extractor_def Let_def)
qed

lemma Keycloak_extractor_no_colon:
  "CHR '':'' \<notin> set (TokenLookup config)
     \<Longrightarrow> Keycloak_extractor unicodeLower config = Inl IndexOutOfRange"
  by (simp add: Keycloak_extractor_def Split_no_sep)

text \<open>
  C10, as stated, fails: \<^verbatim>\<open>parts[1]\<close> is read before the source is looked at, so a
  lookup string with no colon, whose source part is the whole string and is none of
  the three names, makes the constructor panic.
\<close>

theorem TokenLookup_counterexample:
  "\<forall>unicodeLower.
     hd (strings_Split ''Authorization'' (CHR '':'')) = ''Authorization''
     \<and> KeycloakWithConfig example_NewClient unicodeLower
         (example_config\<lparr>TokenLookup := ''Authorization''\<rparr>)
       = Inl IndexOutOfRange"
  by (simp add: KeycloakWithConfig_def Keycloak_defaults_def Keycloak_extractor_def
      example_config_def DefaultKeycloakConfig_def Let_def)

text \<open>
  C10, amended: when the URL is set and the lookup string (after the default) has a
  colon, and the text before the first colon is none of \<^verbatim>\<open>query\<close>, \<^verbatim>\<open>param\<close> and
  \<^verbatim>\<open>cookie\<close>, the constructor returns without a panic and the gate extracts from
  the header named by the text between the first colon and the next one (or the end).
\<close>

theorem unknown_source_uses_header:
  assumes "KeycloakURL config \<noteq> []"
      and "(if TokenLookup config = [] then TokenLookup DefaultKeycloakConfig
            else TokenLookup config) = source @ CHR '':'' # rest"
      and "CHR '':'' \<notin> set source"
      and "source \<notin> {''query'', ''param'', ''cookie''}"
  shows "\<exists>config'. Keycloak_defaults NewClient config = Inr config'
     \<and> KeycloakWithConfig NewClient unicodeLower config =
         Inr \<lparr>gate_config = config',
              gate_extractor =
                tokenFromHeader unicodeLower (takeWhile (\<lambda>c. c \<noteq> CHR '':'') rest)
                  (if AuthScheme config = [] then ''Bearer'' else AuthScheme config)\<rparr>"
proof -
  from assms(1) obtain config' where
    d: "Keycloak_defaults NewClient config = Inr config'"
    and l: "TokenLookup config' = (if TokenLookup config = [] then ''header:Authorization''
                       else TokenLookup config)"
    and a: "AuthScheme config' = (if AuthScheme config = [] then ''Bearer'' else AuthScheme config)"
    by (simp add: Keycloak_defaults_ok)
  have dl: "TokenLookup DefaultKeycloakConfig = ''header:Authorization''"
    by (simp add: DefaultKeycloakConfig_def HeaderAuthorization_def)
  from l assms(2) [unfolded dl] have "TokenLookup config' = source @ CHR '':'' # rest"
    by (rule trans)
  with assms(3,4) have "Keycloak_extractor unicodeLower config' =
     Inr (tokenFromHeader unicodeLower (takeWhile (\<lambda>c. c \<noteq> CHR '':'') rest)
            (AuthScheme config'))"
    by (intro Keycloak_extractor_header) auto
  with d a show ?thesis
    by (simp add: KeycloakWithConfig_def)
qed

theorem unknown_source_uses_header_witness:
  "\<forall>unicodeLower.
     KeycloakURL (example_config\<lparr>TokenLookup := ''heder:X-Token''\<rparr>) \<noteq> []
     \<and> ''heder'' \<notin> {''query'', ''param'', ''cookie''}
     \<and> KeycloakWithConfig example_NewClient unicodeLower
         (example_config\<lparr>TokenLookup := ''heder:X-Token''\<rparr>)
       = Inr \<lparr>gate_config = example_config\<lparr>TokenLookup := ''heder:X-Token'',
                                            gocloakClient := Some example_client\<rparr>,
              gate_extractor = tokenFromHeader unicodeLower ''X-Token'' ''Bearer''\<rparr>"
proof (intro allI)
  fix unicodeLower :: "string \<Rightarrow> string"
  have d: "Keycloak_defaults example_NewClient (example_config\<lparr>TokenLookup := ''heder:X-Token''\<rparr>)
    = Inr (example_config\<lparr>TokenLookup := ''heder:X-Token'',
                          gocloakClient := Some example_client\<rparr>)"
    by (simp add: Keycloak_defaults_def example_config_def DefaultKeycloakConfig_def Let_def
        example_NewClient_def)
  show "KeycloakURL (example_config\<lparr>TokenLookup := ''heder:X-Token''\<rparr>) \<noteq> []
     \<and> ''heder'' \<notin> {''query'', ''param'', ''cookie''}
     \<and> KeycloakWithConfig example_NewClient unicodeLower
         (example_config\<lparr>TokenLookup := ''heder:X-Token''\<rparr>)
       = Inr \<lparr>gate_config = example_config\<lparr>TokenLookup := ''heder:X-Token'',
                                            gocloakClient := Some example_client\<rparr>,
              gate_extractor = tokenFromHeader unicodeLower ''X-Token'' ''Bearer''\<rparr>"
    using unknown_source_uses_header [of "example_config\<lparr>TokenLookup := ''heder:X-Token''\<rparr>"
      "''heder''" "''X-Token''" example_NewClient unicodeLower] d
    by (simp add: example_config_def DefaultKeycloakConfig_def)
qed

subsection \<open>The handler of the authentication gate\<close>

text \<open>
  The helpers read the hooks and the context key, not the claims, so what the handler
  returns is a case analysis on the decode result with the configuration as found.
\<close>

lemma Keycloak_decode_failed_Claims:
  "Keycloak_decode_failed (config\<lparr>Claims := claims'\<rparr>) err c
     = Keycloak_decode_failed config err c"
  by (simp add: Keycloak_decode_failed_def split: option.split)

lemma Keycloak_succeed_Claims:
  "Keycloak_succeed (config\<lparr>Claims := claims'\<rparr>) next t c = Keycloak_succeed config next t c"
  by (simp add: Keycloak_succeed_def split: option.split)

lemma Keycloak_handler_eq:
  "Keycloak_handler shared config extractor next c0 =
     (case Skipper config of
        None \<Rightarrow> Inl NilPointerDereference
      | Some skipper \<Rightarrow>
          (if skipper c0 then next c0
           else
             (let c = (case BeforeFunc config of None \<Rightarrow> c0 | Some before \<Rightarrow> before c0)
              in (case extractor c of
                    Inl err \<Rightarrow> Inr (Keycloak_extract_failed config err c)
                  | Inr auth \<Rightarrow>
                      (case Keycloak_decode shared config auth of
                         Inl p \<Rightarrow> Inl p
                       | Inr (token, err, shared', claims') \<Rightarrow>
                           (case err of
                              Some e \<Rightarrow> Inr (Keycloak_decode_failed config err c)
                            | None \<Rightarrow>
                                (case token of
                                   None \<Rightarrow> Inl NilPointerDereference
                                 | Some t \<Rightarrow>
                                     (if Token_Valid t
                                      then Keycloak_succeed config next t c
                                      else Inr (Keycloak_decode_failed config err c)))))))))"
  by (simp add: Keycloak_handler_def Keycloak_serve_def Let_def Keycloak_decode_failed_Claims
      Keycloak_succeed_Claims split: option.split sum.split prod.split)

subsection \<open>Evaluation of the example configuration\<close>

lemma example_config_defaults:
  "Keycloak_defaults example_NewClient example_config
     = Inr (example_config\<lparr>gocloakClient := Some example_client\<rparr>)"
  by (simp add: Keycloak_defaults_def example_config_def DefaultKeycloakConfig_def Let_def
      example_NewClient_def)

lemma example_config_extractor:
  "Keycloak_extractor unicodeLower (example_config\<lparr>gocloakClient := Some example_client\<rparr>)
     = Inr (tokenFromHeader unicodeLower ''Authorization'' ''Bearer'')"
  by (simp add: Keycloak_extractor_def example_config_def DefaultKeycloakConfig_def Let_def
      HeaderAuthorization_def)

lemma run_example_config:
  "run_Keycloak example_NewClient unicodeLower example_config shared next c =
     Keycloak_handler shared (example_config\<lparr>gocloakClient := Some example_client\<rparr>)
        (tokenFromHeader unicodeLower ''Authorization'' ''Bearer'') next c"
  by (simp add: run_Keycloak_def KeycloakWithConfig_def example_config_defaults
      example_config_extractor)

lemma example_config_fields:
  "Skipper example_config = Some DefaultSkipper"
  "BeforeFunc example_config = None"
  "SuccessHandler example_config = None"
  "ErrorHandler example_config = None"
  "ErrorHandlerWithContext example_config = None"
  "ContextKey example_config = ''user''"
  "Claims example_config = Some DefaultClaims"
  "KeycloakRealm example_config = ''test''"
  by (simp_all add: example_config_def DefaultKeycloakConfig_def)

lemma example_fill_initial: "example_fill initial_shared = MapClaims example_claims"
  by (simp add: example_fill_def initial_shared_def)

lemma example_decode:
  "Keycloak_decode initial_shared (example_config\<lparr>gocloakClient := Some example_client\<rparr>)
      ''abc123''
     = Inr (Some example_token, None, MapClaims example_claims, Some DefaultClaims)"
  "Keycloak_decode shared (example_config\<lparr>gocloakClient := Some example_client\<rparr>) ''xyz''
     = Inr (None, Some (ForeignError ''token is malformed''), shared, Some DefaultClaims)"
  by (simp_all add: Keycloak_decode_def example_config_fields example_client_def
      example_fill_initial example_token_def)

subsection \<open>Failure handling of the authentication gate\<close>

text \<open>
  C5, as stated, fails for an extraction failure with no hook configured: the gate
  returns the extractor's own error, \<open>ErrTokenMissing\<close> with code 400, not a 401
  response wrapping it.
\<close>

theorem extraction_failure_counterexample:
  "\<forall>unicodeLower.
     run_Keycloak example_NewClient unicodeLower example_config initial_shared example_next
         (example_request [])
       = Inr (Some ErrTokenMissing, example_request [])
     \<and> Some ErrTokenMissing \<noteq> Some (spec_Unauthorized (Some ErrTokenMissing))
     \<and> Code ErrTokenMissing = 400"
  by (simp add: run_example_config Keycloak_handler_eq example_config_fields DefaultSkipper_def
      example_header_missing Let_def Keycloak_extract_failed_def ErrTokenMissing_def
      NewHTTPError_def spec_Unauthorized_def StatusBadRequest_def)

lemma Keycloak_extract_failed_spec:
  "Keycloak_extract_failed config e c = spec_on_failure config (Some e) c e"
  by (simp add: Keycloak_extract_failed_def spec_on_failure_def)

lemma Keycloak_decode_failed_spec:
  "Keycloak_decode_failed config err c = spec_on_failure config err c (spec_Unauthorized err)"
  by (simp add: Keycloak_decode_failed_def spec_on_failure_def spec_Unauthorized_def
      StatusUnauthorized_def split: option.split)

text \<open>
  C5, amended: on every failure of the authentication gate the context-free error
  hook, if configured, is called with the error and its result returned; else the
  context-aware hook, if configured, is called with the error and the context and its
  result returned; else, after an extraction failure the extractor's error itself is
  returned, and after a validation failure (an error of the decode call, or a token
  whose validity flag is false) the default response HTTP 401 with message
  \<^verbatim>\<open>invalid or expired token\<close> wrapping the error.
\<close>

theorem Keycloak_failure_cascade:
  assumes "Skipper config = Some skipper" and "\<not> skipper c0"
      and "c = (case BeforeFunc config of None \<Rightarrow> c0 | Some before \<Rightarrow> before c0)"
  shows "(\<forall>e. extractor c = Inl e \<longrightarrow>
            Keycloak_handler shared config extractor next c0
              = Inr (spec_on_failure config (Some e) c e))
       \<and> (\<forall>auth token err shared' claims'.
            extractor c = Inr auth
            \<and> Keycloak_decode shared config auth = Inr (token, err, shared', claims')
            \<and> (err \<noteq> None \<or> (\<exists>t. token = Some t \<and> \<not> Token_Valid t)) \<longrightarrow>
            Keycloak_handler shared config extractor next c0
              = Inr (spec_on_failure config err c (spec_Unauthorized err)))"
proof (intro conjI allI impI)
  fix e
  assume "extractor c = Inl e"
  with assms show "Keycloak_handler shared config extractor next c0
              = Inr (spec_on_failure config (Some e) c e)"
    by (simp add: Keycloak_handler_eq Keycloak_extract_failed_spec Let_def)
next
  fix auth token err shared' claims'
  assume h: "extractor c = Inr auth
            \<and> Keycloak_decode shared config auth = Inr (token, err, shared', claims')
            \<and> (err \<noteq> None \<or> (\<exists>t. token = Some t \<and> \<not> Token_Valid t))"
  from h assms show "Keycloak_handler shared config extractor next c0
              = Inr (spec_on_failure config err c (spec_Unauthorized err))"
    by (cases err; cases token) (auto simp: Keycloak_handler_eq Keycloak_decode_failed_spec Let_def)
qed

theorem Keycloak_failure_cascade_witness:
  "\<forall>unicodeLower.
   Keycloak_handler initial_shared (example_config\<lparr>gocloakClient := Some example_client\<rparr>)
      (tokenFromHeader unicodeLower ''Authorization'' ''Bearer'') example_next
      (example_request [])
     = Inr (Some ErrTokenMissing, example_request [])
   \<and> Keycloak_handler initial_shared (example_config\<lparr>gocloakClient := Some example_client\<rparr>)
      (tokenFromHeader unicodeLower ''Authorization'' ''Bearer'') example_next
      (example_request ''Bearer xyz'')
     = Inr (Some (HTTPError 401 (Text ''invalid or expired token'')
                    (Some (ForeignError ''token is malformed''))),
            example_request ''Bearer xyz'')
   \<and> Keycloak_handler initial_shared
        (example_config\<lparr>ErrorHandler := Some example_teapot,
                         gocloakClient := Some example_client\<rparr>)
      (tokenFromHeader unicodeLower ''Authorization'' ''Bearer'') example_next
      (example_request ''Bearer xyz'')
     = Inr (Some (HTTPError 418 (Text ''teapot'') (Some (ForeignError ''token is malformed''))),
            example_request ''Bearer xyz'')"
proof (intro allI)
  fix unicodeLower :: "string \<Rightarrow> string"
  let ?cfg = "example_config\<lparr>gocloakClient := Some example_client\<rparr>"
  let ?cfg2 = "example_config\<lparr>ErrorHandler := Some example_teapot,
                         gocloakClient := Some example_client\<rparr>"
  let ?ex = "tokenFromHeader unicodeLower ''Authorization'' ''Bearer''"
  let ?sh = initial_shared
  have d2: "Keycloak_decode ?sh ?cfg2 ''xyz''
     = Inr (None, Some (ForeignError ''token is malformed''), ?sh, Some DefaultClaims)"
    by (simp add: Keycloak_decode_def example_config_fields example_client_def)
  have a: "Keycloak_handler ?sh ?cfg ?ex example_next (example_request [])
     = Inr (spec_on_failure ?cfg (Some ErrTokenMissing) (example_request []) ErrTokenMissing)"
    using Keycloak_failure_cascade [of ?cfg DefaultSkipper "example_request []"
        "example_request []" ?ex ?sh example_next]
    by (simp add: example_config_fields DefaultSkipper_def example_header_missing)
  have b: "Keycloak_handler ?sh ?cfg ?ex example_next (example_request ''Bearer xyz'')
     = Inr (spec_on_failure ?cfg (Some (ForeignError ''token is malformed''))
             (example_request ''Bearer xyz'')
             (spec_Unauthorized (Some (ForeignError ''token is malformed''))))"
    using Keycloak_failure_cascade [of ?cfg DefaultSkipper "example_request ''Bearer xyz''"
        "example_request ''Bearer xyz''" ?ex ?sh example_next]
    by (simp add: example_config_fields DefaultSkipper_def example_header_xyz example_decode)
  have c: "Keycloak_handler ?sh ?cfg2 ?ex example_next (example_request ''Bearer xyz'')
     = Inr (spec_on_failure ?cfg2 (Some (ForeignError ''token is malformed''))
             (example_request ''Bearer xyz'')
             (spec_Unauthorized (Some (ForeignError ''token is malformed''))))"
    using Keycloak_failure_cascade [of ?cfg2 DefaultSkipper "example_request ''Bearer xyz''"
        "example_request ''Bearer xyz''" ?ex ?sh example_next]
    by (simp add: example_config_fields DefaultSkipper_def example_header_xyz d2)
  show "Keycloak_handler ?sh ?cfg ?ex example_next (example_request [])
     = Inr (Some ErrTokenMissing, example_request [])
   \<and> Keycloak_handler ?sh ?cfg ?ex example_next (example_request ''Bearer xyz'')
     = Inr (Some (HTTPError 401 (Text ''invalid or expired token'')
                    (Some (ForeignError ''token is malformed''))),
            example_request ''Bearer xyz'')
   \<and> Keycloak_handler ?sh ?cfg2 ?ex example_next (example_request ''Bearer xyz'')
     = Inr (Some (HTTPError 418 (Text ''teapot'') (Some (ForeignError ''token is malformed''))),
            example_request ''Bearer xyz'')"
    unfolding a b c
    by (simp add: spec_on_failure_def spec_Unauthorized_def example_config_fields
        example_teapot_def)
qed

subsection \<open>What the authentication gate writes to the context\<close>

lemma spec_on_failure_context:
  "ErrorHandler config \<noteq> None \<or> ErrorHandlerWithContext config = None
     \<Longrightarrow> snd (spec_on_failure config err c d) = c"
  by (auto simp: spec_on_failure_def split: option.splits)

lemma spec_on_failure_hook:
  "ErrorHandler config = None \<Longrightarrow> ErrorHandlerWithContext config = Some h
     \<Longrightarrow> spec_on_failure config err c d = h err c"
  by (simp add: spec_on_failure_def)

text \<open>
  C8: a skipped request goes to \<^verbatim>\<open>next\<close> with the context untouched. Otherwise, when
  the decode call returned no error and a token whose validity flag is true, the token
  is bound under the configured key before the success hook and \<^verbatim>\<open>next\<close> run; on
  every failure path (extraction error, validation error, validity flag false) the
  gate makes no write: the context it returns is the one the pre-hook left, unless the
  context-aware error hook is the one that answers, and then it is what that hook
  returns from it.
\<close>

theorem Keycloak_binds_on_success_only:
  assumes "Skipper config = Some skipper"
      and "c = (case BeforeFunc config of None \<Rightarrow> c0 | Some before \<Rightarrow> before c0)"
  shows "(skipper c0 \<longrightarrow> Keycloak_handler shared config extractor next c0 = next c0)
       \<and> (\<not> skipper c0 \<longrightarrow>
           (\<forall>auth t shared' claims'.
              extractor c = Inr auth
              \<and> Keycloak_decode shared config auth = Inr (Some t, None, shared', claims')
              \<and> Token_Valid t \<longrightarrow>
              Keycloak_handler shared config extractor next c0
                = next ((case SuccessHandler config of None \<Rightarrow> (\<lambda>c. c) | Some success \<Rightarrow> success)
                          (ctx_Set c (ContextKey config) (TokenPtr (Some t))))
              \<and> ctx_Get (ctx_Set c (ContextKey config) (TokenPtr (Some t))) (ContextKey config)
                  = Some (TokenPtr (Some t)))
         \<and> (\<forall>e auth token err shared' claims'.
              (extractor c = Inl e \<and> err = Some e)
              \<or> (extractor c = Inr auth
                  \<and> Keycloak_decode shared config auth = Inr (token, err, shared', claims')
                  \<and> (err \<noteq> None \<or> (\<exists>t. token = Some t \<and> \<not> Token_Valid t))) \<longrightarrow>
              (ErrorHandler config \<noteq> None \<or> ErrorHandlerWithContext config = None \<longrightarrow>
                 (\<exists>r. Keycloak_handler shared config extractor next c0 = Inr (r, c)))
              \<and> (\<forall>h. ErrorHandler config = None \<and> ErrorHandlerWithContext config = Some h \<longrightarrow>
                 Keycloak_handler shared config extractor next c0 = Inr (h err c))))"
proof (intro conjI impI allI)
  assume "skipper c0"
  with assms show "Keycloak_handler shared config extractor next c0 = next c0"
    by (simp add: Keycloak_handler_eq)
next
  fix auth t shared' claims'
  assume "\<not> skipper c0" and "extractor c = Inr auth
              \<and> Keycloak_decode shared config auth = Inr (Some t, None, shared', claims')
              \<and> Token_Valid t"
  with assms show "Keycloak_handler shared config extractor next c0
                = next ((case SuccessHandler config of None \<Rightarrow> (\<lambda>c. c) | Some success \<Rightarrow> success)
                          (ctx_Set c (ContextKey config) (TokenPtr (Some t))))"
    by (simp add: Keycloak_handler_eq Keycloak_succeed_def Let_def split: option.split)
  show "ctx_Get (ctx_Set c (ContextKey config) (TokenPtr (Some t))) (ContextKey config)
                  = Some (TokenPtr (Some t))"
    by (simp add: ctx_Get_def ctx_Set_def)
next
  fix e auth token err shared' claims'
  assume ns: "\<not> skipper c0"
    and f: "(extractor c = Inl e \<and> err = Some e)
              \<or> (extractor c = Inr auth
                  \<and> Keycloak_decode shared config auth = Inr (token, err, shared', claims')
                  \<and> (err \<noteq> None \<or> (\<exists>t. token = Some t \<and> \<not> Token_Valid t)))"
  have "\<exists>d. Keycloak_handler shared config extractor next c0
               = Inr (spec_on_failure config err c d)"
  proof (cases "extractor c")
    case (Inl e')
    with f assms ns show ?thesis
      by (auto simp: Keycloak_handler_eq Keycloak_extract_failed_spec Let_def)
  next
    case (Inr auth')
    with f assms ns show ?thesis
      by (cases err; cases token)
         (auto simp: Keycloak_handler_eq Keycloak_decode_failed_spec Let_def)
  qed
  then obtain d where
    r: "Keycloak_handler shared config extractor next c0
          = Inr (spec_on_failure config err c d)" ..
  {
    assume "ErrorHandler config \<noteq> None \<or> ErrorHandlerWithContext config = None"
    then have "snd (spec_on_failure config err c d) = c"
      by (rule spec_on_failure_context)
    then have "spec_on_failure config err c d = (fst (spec_on_failure config err c d), c)"
      by (metis prod.collapse)
    with r show "\<exists>r. Keycloak_handler shared config extractor next c0 = Inr (r, c)"
      by metis
  }
  {
    fix h
    assume "ErrorHandler config = None \<and> ErrorHandlerWithContext config = Some h"
    with r show "Keycloak_handler shared config extractor next c0 = Inr (h err c)"
      by (simp add: spec_on_failure_hook)
  }
qed

theorem Keycloak_binds_on_success_only_witness:
  "\<forall>unicodeLower.
   Keycloak_handler initial_shared (example_config\<lparr>gocloakClient := Some example_client\<rparr>)
      (tokenFromHeader unicodeLower ''Authorization'' ''Bearer'') example_next
      (example_request ''Bearer abc123'')
     = Inr (None, ctx_Set (example_request ''Bearer abc123'') ''user''
                    (TokenPtr (Some example_token)))
   \<and> (\<exists>r. Keycloak_handler initial_shared
             (example_config\<lparr>gocloakClient := Some example_client\<rparr>)
      (tokenFromHeader unicodeLower ''Authorization'' ''Bearer'') example_next
      (example_request ''Bearer xyz'')
     = Inr (r, example_request ''Bearer xyz''))
   \<and> (\<exists>r. Keycloak_handler initial_shared
             (example_config\<lparr>gocloakClient := Some example_client\<rparr>)
      (tokenFromHeader unicodeLower ''Authorization'' ''Bearer'') example_next
      (example_request [])
     = Inr (r, example_request []))
   \<and> Keycloak_handler initial_shared
        (example_config\<lparr>Skipper := Some (\<lambda>c. True), gocloakClient := Some example_client\<rparr>)
      (tokenFromHeader unicodeLower ''Authorization'' ''Bearer'') example_next
      (example_request ''Bearer abc123'')
     = Inr (None, example_request ''Bearer abc123'')"
proof (intro allI)
  fix unicodeLower :: "string \<Rightarrow> string"
  let ?cfg = "example_config\<lparr>gocloakClient := Some example_client\<rparr>"
  let ?cfg3 = "example_config\<lparr>Skipper := Some (\<lambda>c. True),
                               gocloakClient := Some example_client\<rparr>"
  let ?ex = "tokenFromHeader unicodeLower ''Authorization'' ''Bearer''"
  let ?sh = initial_shared
  have v: "Token_Valid example_token" by (simp add: example_token_def)
  have a: "Keycloak_handler ?sh ?cfg ?ex example_next (example_request ''Bearer abc123'')
     = Inr (None, ctx_Set (example_request ''Bearer abc123'') ''user''
                    (TokenPtr (Some example_token)))"
    using Keycloak_binds_on_success_only [of ?cfg DefaultSkipper
        "example_request ''Bearer abc123''" "example_request ''Bearer abc123''" ?sh ?ex
        example_next]
    by (simp add: example_config_fields DefaultSkipper_def example_header_abc123 example_decode v
        example_next_def)
  have b: "\<exists>r. Keycloak_handler ?sh ?cfg ?ex example_next (example_request ''Bearer xyz'')
     = Inr (r, example_request ''Bearer xyz'')"
    using Keycloak_binds_on_success_only [of ?cfg DefaultSkipper
        "example_request ''Bearer xyz''" "example_request ''Bearer xyz''" ?sh ?ex example_next]
    by (simp add: example_config_fields DefaultSkipper_def example_header_xyz example_decode)
  have c: "\<exists>r. Keycloak_handler ?sh ?cfg ?ex example_next (example_request [])
     = Inr (r, example_request [])"
    using Keycloak_binds_on_success_only [of ?cfg DefaultSkipper
        "example_request []" "example_request []" ?sh ?ex example_next]
    by (simp add: example_config_fields DefaultSkipper_def example_header_missing)
  have d: "Keycloak_handler ?sh ?cfg3 ?ex example_next (example_request ''Bearer abc123'')
     = Inr (None, example_request ''Bearer abc123'')"
    using Keycloak_binds_on_success_only
      [of ?cfg3 "\<lambda>c. True" "example_request ''Bearer abc123''"
          "example_request ''Bearer abc123''" ?sh ?ex example_next]
    by (simp add: example_config_fields example_next_def)
  from a b c d
  show "Keycloak_handler ?sh ?cfg ?ex example_next (example_request ''Bearer abc123'')
     = Inr (None, ctx_Set (example_request ''Bearer abc123'') ''user''
                    (TokenPtr (Some example_token)))
   \<and> (\<exists>r. Keycloak_handler ?sh ?cfg ?ex example_next (example_request ''Bearer xyz'')
     = Inr (r, example_request ''Bearer xyz''))
   \<and> (\<exists>r. Keycloak_handler ?sh ?cfg ?ex example_next (example_request [])
     = Inr (r, example_request []))
   \<and> Keycloak_handler ?sh ?cfg3 ?ex example_next (example_request ''Bearer abc123'')
     = Inr (None, example_request ''Bearer abc123'')"
    by blast
qed

subsection \<open>The authorization gate\<close>

lemma Roles_token_unbound:
  "Store c ''user'' = None \<Longrightarrow> Roles_token c = Inl InterfaceIsNil"
  by (simp add: Roles_token_def ctx_Get_def DefaultKeycloakRolesConfig_def)

lemma Roles_token_bound:
  "Store c ''user'' = Some (TokenPtr token) \<Longrightarrow> Roles_token c = Inr token"
  by (simp add: Roles_token_def ctx_Get_def DefaultKeycloakRolesConfig_def)

lemma example_roles_config_fields:
  "Skipper example_roles_config = Some DefaultSkipper"
  "BeforeFunc example_roles_config = None"
  "SuccessHandler example_roles_config = None"
  "ErrorHandler example_roles_config = None"
  "ErrorHandlerWithContext example_roles_config = None"
  "KeycloakRoles example_roles_config = [''admin'']"
  "TokenContextKey example_roles_config = ''user''"
  "RolesContextKey example_roles_config = ''roles''"
  by (simp_all add: example_roles_config_def DefaultKeycloakRolesConfig_def)

lemma run_example_roles_config:
  "run_KeycloakRoles (example_roles_config\<lparr>TokenContextKey := key\<rparr>) next c =
     KeycloakRoles_handler
       (example_roles_config\<lparr>TokenContextKey := (if key = [] then ''user'' else key)\<rparr>) next c"
  by (simp add: run_KeycloakRoles_def KeycloakRolesWithConfig_def example_roles_config_fields
      DefaultKeycloakRolesConfig_def Let_def)

text \<open>
  C2 fails on the code: with nothing bound under \<^verbatim>\<open>user\<close>, \<^verbatim>\<open>c.Get\<close> returns
  \<^verbatim>\<open>nil\<close> and the type assertion of line 98 panics; the gate does not return
  \<open>ErrClaimsMissing\<close>. This holds for every non-empty list of required roles, every
  \<^verbatim>\<open>next\<close> and every context with that slot empty.
\<close>

theorem Roles_gate_unbound_panics:
  "run_KeycloakRoles (DefaultKeycloakRolesConfig\<lparr>KeycloakRoles := r # roles\<rparr>) next
     (c\<lparr>Store := (Store c)(''user'' := None)\<rparr>) = Inl InterfaceIsNil
   \<and> run_KeycloakRoles example_roles_config example_next (example_request [])
       = Inl InterfaceIsNil"
proof
  show "run_KeycloakRoles (DefaultKeycloakRolesConfig\<lparr>KeycloakRoles := r # roles\<rparr>) next
     (c\<lparr>Store := (Store c)(''user'' := None)\<rparr>) = Inl InterfaceIsNil"
    by (simp add: run_KeycloakRoles_def KeycloakRolesWithConfig_def KeycloakRoles_handler_def
        DefaultKeycloakRolesConfig_def DefaultSkipper_def Let_def Roles_token_def ctx_Get_def)
  show "run_KeycloakRoles example_roles_config example_next (example_request [])
       = Inl InterfaceIsNil"
    by (simp add: run_KeycloakRoles_def KeycloakRolesWithConfig_def KeycloakRoles_handler_def
        example_roles_config_def example_request_def
        DefaultKeycloakRolesConfig_def DefaultSkipper_def Let_def Roles_token_def ctx_Get_def)
qed





lemma Roles_strings_prefix:
  "Roles_strings (map AString xs @ rest) acc = Roles_strings rest (acc @ xs)"
  by (induction xs arbitrary: acc) auto

text \<open>
  C6 fails on the code: the loop of lines 111--113 asserts \<^verbatim>\<open>r.(string)\<close> with no
  \<^verbatim>\<open>ok\<close> result, so the first element of the roles list that is not a string makes
  it panic, whatever precedes and follows it; \<open>ErrRolesMissing\<close> is not returned. The
  last conjunct is the gate on the claims
  \<^verbatim>\<open>{"realm_access": {"roles": ["admin", 42]}}\<close>.
\<close>

theorem Roles_strings_panics:
  "Roles_strings (map AString xs @ ANumber n # rest) acc = Inl InterfaceWrongType
   \<and> Roles_strings (map AString xs @ ABool b # rest) acc = Inl InterfaceWrongType
   \<and> Roles_strings (map AString xs @ AList l # rest) acc = Inl InterfaceWrongType
   \<and> Roles_strings (map AString xs @ AMap m # rest) acc = Inl InterfaceWrongType
   \<and> Roles_strings (map AString xs @ ANil # rest) acc = Inl InterfaceIsNil
   \<and> run_KeycloakRoles example_roles_config example_next
       (example_bound (MapClaims
          [(''realm_access'', AMap [(''roles'', AList [AString ''admin'', ANumber 42])])]))
     = Inl InterfaceWrongType"
  by (simp add: Roles_strings_prefix
        run_KeycloakRoles_def KeycloakRolesWithConfig_def KeycloakRoles_handler_def
        example_roles_config_def example_bound_def example_request_def ctx_Set_def
        DefaultKeycloakRolesConfig_def DefaultSkipper_def Let_def Roles_token_def ctx_Get_def
        Roles_resolve_def)

subsection \<open>The two gates together\<close>

lemma run_example_config_key:
  "key \<noteq> [] \<Longrightarrow>
   run_Keycloak example_NewClient unicodeLower (example_config\<lparr>ContextKey := key\<rparr>) shared
       next c =
     Keycloak_handler shared
        (example_config\<lparr>ContextKey := key, gocloakClient := Some example_client\<rparr>)
        (tokenFromHeader unicodeLower ''Authorization'' ''Bearer'') next c"
  by (simp add: run_Keycloak_def KeycloakWithConfig_def Keycloak_defaults_def
      Keycloak_extractor_def example_config_def DefaultKeycloakConfig_def Let_def
      example_NewClient_def HeaderAuthorization_def)

lemma example_auth_binds:
  "key \<noteq> [] \<Longrightarrow>
   Keycloak_handler initial_shared
        (example_config\<lparr>ContextKey := key, gocloakClient := Some example_client\<rparr>)
        (tokenFromHeader unicodeLower ''Authorization'' ''Bearer'') next
        (example_request ''Bearer abc123'')
     = next (ctx_Set (example_request ''Bearer abc123'') key (TokenPtr (Some example_token)))"
  by (simp add: Keycloak_handler_eq example_config_fields DefaultSkipper_def Let_def
      example_header_abc123 Keycloak_decode_def example_client_def Keycloak_succeed_def
      example_token_def example_fill_initial)

text \<open>
  C1 fails on the code: the authorization gate reads the slot \<^verbatim>\<open>user\<close> of the default
  configuration, not its own \<^verbatim>\<open>TokenContextKey\<close>. A token bound under a key is read
  back only when that key is \<^verbatim>\<open>user\<close>. With both gates given the key
  \<^verbatim>\<open>principal\<close>, the authentication gate binds the token there and the
  authorization gate panics on the empty slot \<^verbatim>\<open>user\<close>; with the key \<^verbatim>\<open>user\<close> the
  chain succeeds and binds the roles.
\<close>

theorem context_key_ignored:
  "Roles_token (ctx_Set c key (TokenPtr token))
     = (if key = ''user'' then Inr token else Roles_token c)
   \<and> example_chain unicodeLower ''principal'' (example_request ''Bearer abc123'')
       = Inl InterfaceIsNil
   \<and> example_chain unicodeLower ''user'' (example_request ''Bearer abc123'')
       = Inr (None, ctx_Set (ctx_Set (example_request ''Bearer abc123'') ''user''
                               (TokenPtr (Some example_token)))
                      ''roles'' (Strings [''user'', ''admin'']))"
proof (intro conjI)
  show "Roles_token (ctx_Set c key (TokenPtr token))
     = (if key = ''user'' then Inr token else Roles_token c)"
    by (simp add: Roles_token_def ctx_Get_def ctx_Set_def DefaultKeycloakRolesConfig_def)
  have "Store (ctx_Set (example_request ''Bearer abc123'') ''principal''
                 (TokenPtr (Some example_token))) ''user'' = None"
    by (simp add: ctx_Set_def example_request_def)
  then have "Roles_token (ctx_Set (example_request ''Bearer abc123'') ''principal''
                 (TokenPtr (Some example_token))) = Inl InterfaceIsNil"
    by (rule Roles_token_unbound)
  then show "example_chain unicodeLower ''principal'' (example_request ''Bearer abc123'')
      = Inl InterfaceIsNil"
    by (simp add: example_chain_def run_example_config_key example_auth_binds
        run_example_roles_config KeycloakRoles_handler_def example_roles_config_fields
        DefaultSkipper_def Let_def)
  have "Store (ctx_Set (example_request ''Bearer abc123'') ''user''
                 (TokenPtr (Some example_token))) ''user'' = Some (TokenPtr (Some example_token))"
    by (simp add: ctx_Set_def)
  then have t: "Roles_token (ctx_Set (example_request ''Bearer abc123'') ''user''
                 (TokenPtr (Some example_token))) = Inr (Some example_token)"
    by (rule Roles_token_bound)
  have r: "Roles_resolve (example_roles_config\<lparr>TokenContextKey := ''user''\<rparr>) example_token
         = Inr ([''user'', ''admin''], None)"
    by (simp add: Roles_resolve_def example_token_def example_claims_def
        example_roles_config_fields)
  show "example_chain unicodeLower ''user'' (example_request ''Bearer abc123'')
       = Inr (None, ctx_Set (ctx_Set (example_request ''Bearer abc123'') ''user''
                               (TokenPtr (Some example_token)))
                      ''roles'' (Strings [''user'', ''admin'']))"
    by (simp add: example_chain_def run_example_config_key example_auth_binds
        run_example_roles_config KeycloakRoles_handler_def example_roles_config_fields
        DefaultSkipper_def Let_def t r Roles_succeed_def example_next_def)
       (simp add: example_token_def)
qed

subsection \<open>The decode call\<close>








subsection \<open>The membership check inside the gate\<close>

text \<open>
  Where the roles list holds strings only, the role extractor returns them in order
  and \<^verbatim>\<open>err\<close> is what the membership check leaves.
\<close>

lemma Roles_resolve_strings:
  assumes "Token_Claims token = MapClaims claims"
      and "map_of claims ''realm_access'' = Some (AMap realmAcces)"
      and "map_of realmAcces ''roles'' = Some (AList (map AString roles))"
  shows "Roles_resolve config token =
           Inr (roles, if set (KeycloakRoles config) \<subseteq> set roles then None
                       else Some ErrRolesInvalid)"
proof -
  have "Roles_strings (map AString roles @ []) [] = Inr roles"
    by (simp only: Roles_strings_prefix) simp
  then have "Roles_strings (map AString roles) [] = Inr roles" by simp
  with assms show ?thesis
    by (simp add: Roles_resolve_def Roles_check_all)
qed

end
